theory Spec2Isabelle
  imports
    Complex_Main
    "HOL-Library.Log_Nat"
    "HOL-Library.Char_ord"
    "HOL-Library.List_Lexorder"
    "HOL-Library.Sublist"
    "HOL-Library.Multiset"
begin

section \<open>Values\<close>

text \<open>
  Amounts are Python floats, that is binary64 numbers. A float is modelled by its value: a
  finite number, one of the two infinities, or NaN (the sign of zero is not kept). Every
  operation that produces a float rounds the exact result to binary64: to the nearest
  value with a 53-bit significand, ties to the even significand, with the subnormal
  numbers below \<open>pow2 (- 1022)\<close> and overflow to an infinity from \<open>pow2 1024\<close> on.
  Python's integer \<open>0\<close>, which the source uses as the start of its sums, is \<open>Finite 0\<close>.
\<close>

datatype pyfloat = Finite rat | PosInf | NegInf | NaN

text \<open>
  \<open>binary_exponent q\<close> is the integer \<open>e\<close> with \<open>pow2 e \<le> q < pow2 (e + 1)\<close>, for a
  positive \<open>q\<close>: the bit lengths of numerator and denominator give it up to one.
  \<open>round_binary64\<close> rounds to a multiple \<open>m\<close> of the unit in the last place of the
  binade of \<open>q\<close>. The result reaches \<open>pow2 1024\<close>, and so overflows, when the exponent
  is above 1023, or is 1023 and \<open>m\<close> is rounded up to \<open>2 ^ 53\<close>.
\<close>

definition pow2 :: "int \<Rightarrow> rat" where
  "pow2 e = (if 0 \<le> e then 2 ^ nat e else 1 / 2 ^ nat (- e))"

definition round_half_even :: "rat \<Rightarrow> int" where
  "round_half_even q =
     (let f = \<lfloor>q\<rfloor>; r = q - of_int f
      in if r < 1 / 2 then f else if 1 / 2 < r then f + 1 else if even f then f else f + 1)"

definition binary_exponent :: "rat \<Rightarrow> int" where
  "binary_exponent q =
     (let (n, d) = quotient_of q; k = bitlen n - bitlen d
      in if pow2 k \<le> q then k else k - 1)"

definition round_binary64 :: "rat \<Rightarrow> pyfloat" where
  "round_binary64 q =
     (if q = 0 then Finite 0
      else
        (let a = \<bar>q\<bar>;
             e = max (binary_exponent a) (- 1022);
             ulp = pow2 (e - 52);
             m = round_half_even (a / ulp);
             r = of_int m * ulp
         in if 1023 < e \<or> (e = 1023 \<and> m = 2 ^ 53) then (if 0 < q then PosInf else NegInf)
            else Finite (if 0 < q then r else - r)))"

text \<open>\<open>x + y\<close> on floats.\<close>

fun float_add :: "pyfloat \<Rightarrow> pyfloat \<Rightarrow> pyfloat" where
  "float_add NaN _ = NaN"
| "float_add _ NaN = NaN"
| "float_add (Finite a) (Finite b) = round_binary64 (a + b)"
| "float_add (Finite a) PosInf = PosInf"
| "float_add (Finite a) NegInf = NegInf"
| "float_add PosInf (Finite b) = PosInf"
| "float_add NegInf (Finite b) = NegInf"
| "float_add PosInf PosInf = PosInf"
| "float_add NegInf NegInf = NegInf"
| "float_add PosInf NegInf = NaN"
| "float_add NegInf PosInf = NaN"

text \<open>\<open>x <= 0\<close> and \<open>x > 0\<close> on floats: both are false at NaN.\<close>

fun float_le_zero :: "pyfloat \<Rightarrow> bool" where
  "float_le_zero (Finite a) = (a \<le> 0)"
| "float_le_zero PosInf = False"
| "float_le_zero NegInf = True"
| "float_le_zero NaN = False"

fun float_gt_zero :: "pyfloat \<Rightarrow> bool" where
  "float_gt_zero (Finite a) = (0 < a)"
| "float_gt_zero PosInf = True"
| "float_gt_zero NegInf = False"
| "float_gt_zero NaN = False"

text \<open>\<open>total / count\<close>: a float divided by a positive integer.\<close>

fun float_div_count :: "pyfloat \<Rightarrow> nat \<Rightarrow> pyfloat" where
  "float_div_count (Finite a) n = round_binary64 (a / of_int (int n))"
| "float_div_count PosInf n = PosInf"
| "float_div_count NegInf n = NegInf"
| "float_div_count NaN n = NaN"

section \<open>Strings\<close>

text \<open>
  Strings are sequences of characters with codes below 256. \<open>py_isspace\<close> is
  \<open>str.isspace\<close> on these characters, \<open>strip\<close> is \<open>str.strip()\<close> and
  \<open>lower\<close> is \<open>str.lower()\<close>.
\<close>

definition py_isspace :: "char \<Rightarrow> bool" where
  "py_isspace c =
     (let n = (of_char c :: nat)
      in (9 \<le> n \<and> n \<le> 13) \<or> (28 \<le> n \<and> n \<le> 32) \<or> n = 133 \<or> n = 160)"

definition strip :: "string \<Rightarrow> string" where
  "strip s = rev (dropWhile py_isspace (rev (dropWhile py_isspace s)))"

definition lower_char :: "char \<Rightarrow> char" where
  "lower_char c =
     (let n = (of_char c :: nat)
      in if (65 \<le> n \<and> n \<le> 90) \<or> (192 \<le> n \<and> n \<le> 222 \<and> n \<noteq> 215)
         then char_of (n + 32) else c)"

definition lower :: "string \<Rightarrow> string" where
  "lower s = map lower_char s"

section \<open>float(text)\<close>

text \<open>
  \<open>py_float\<close> is the builtin \<open>float\<close> applied to a string; \<open>None\<close> stands for
  \<open>ValueError\<close>. Leading and trailing white space is dropped (the characters that
  \<open>float\<close> takes for white space: not the separators with codes 28 to 31, which
  \<open>str.strip()\<close> does drop), an optional sign is read, and what follows is \<open>inf\<close>,
  \<open>infinity\<close> or \<open>nan\<close> in any letter case, or a decimal number: digits (single
  underscores allowed between digits), an optional fraction and an optional exponent.
  The exact value of the decimal number is rounded to binary64.
\<close>

definition float_space :: "char \<Rightarrow> bool" where
  "float_space c =
     (let n = (of_char c :: nat) in (9 \<le> n \<and> n \<le> 13) \<or> n = 32 \<or> n = 133 \<or> n = 160)"

definition is_digit :: "char \<Rightarrow> bool" where
  "is_digit c = (let n = (of_char c :: nat) in 48 \<le> n \<and> n \<le> 57)"

definition digit_val :: "char \<Rightarrow> int" where
  "digit_val c = of_char c - 48"

fun digitpart_ok :: "string \<Rightarrow> bool" where
  "digitpart_ok [] = False"
| "digitpart_ok [c] = is_digit c"
| "digitpart_ok (c # d # cs) =
     (is_digit c \<and> (if d = CHR ''_'' then digitpart_ok cs else digitpart_ok (d # cs)))"

definition digits_value :: "string \<Rightarrow> int" where
  "digits_value s = foldl (\<lambda>a c. 10 * a + digit_val c) 0 (filter is_digit s)"

definition digit_or_underscore :: "char \<Rightarrow> bool" where
  "digit_or_underscore c = (is_digit c \<or> c = CHR ''_'')"

definition split_sign :: "string \<Rightarrow> bool \<times> string" where
  "split_sign s =
     (case s of
        [] \<Rightarrow> (False, [])
      | c # cs \<Rightarrow>
          if c = CHR ''-'' then (True, cs) else if c = CHR ''+'' then (False, cs) else (False, s))"

definition pow10 :: "int \<Rightarrow> rat" where
  "pow10 e = (if 0 \<le> e then 10 ^ nat e else 1 / 10 ^ nat (- e))"

definition parse_exponent :: "string \<Rightarrow> int option" where
  "parse_exponent s =
     (case s of
        [] \<Rightarrow> Some 0
      | c # cs \<Rightarrow>
          if c = CHR ''e'' \<or> c = CHR ''E'' then
            (let (neg, ds) = split_sign cs
             in if digitpart_ok ds
                then Some (if neg then - digits_value ds else digits_value ds)
                else None)
          else None)"

definition parse_number :: "string \<Rightarrow> rat option" where
  "parse_number s =
     (let ip = takeWhile digit_or_underscore s;
          r1 = dropWhile digit_or_underscore s;
          has_point = (r1 \<noteq> [] \<and> hd r1 = CHR ''.'');
          fp = (if has_point then takeWhile digit_or_underscore (tl r1) else []);
          r2 = (if has_point then dropWhile digit_or_underscore (tl r1) else r1);
          shape_ok =
            (if has_point
             then (ip = [] \<or> digitpart_ok ip) \<and> (fp = [] \<or> digitpart_ok fp)
                  \<and> \<not> (ip = [] \<and> fp = [])
             else digitpart_ok ip)
      in if shape_ok then
           (case parse_exponent r2 of
              None \<Rightarrow> None
            | Some e \<Rightarrow>
                Some ((of_int (digits_value ip)
                       + of_int (digits_value fp) / 10 ^ length (filter is_digit fp))
                      * pow10 e))
         else None)"

definition py_float :: "string \<Rightarrow> pyfloat option" where
  "py_float text =
     (let trimmed = rev (dropWhile float_space (rev (dropWhile float_space text)));
          (neg, body) = split_sign trimmed;
          word = lower body
      in if word = ''inf'' \<or> word = ''infinity'' then Some (if neg then NegInf else PosInf)
         else if word = ''nan'' then Some NaN
         else (case parse_number body of
                 None \<Rightarrow> None
               | Some q \<Rightarrow> Some (round_binary64 (if neg then - q else q))))"

section \<open>The expense record and the manager\<close>

text \<open>
  An expense is a dictionary with six fixed keys; it is modelled as a record with the
  value types the program puts there (strings and a float). The manager holds the path of
  its data file and the list of expenses. Every method takes the manager and returns its
  result together with the manager it leaves behind.
\<close>

record expense =
  expense_id :: string
  amount :: pyfloat
  category :: string
  description :: string
  date :: string
  created_at :: string

record manager =
  data_file :: string
  expenses :: "expense list"

text \<open>
  What the program reads from its surroundings: \<open>str(uuid.uuid4())\<close>,
  \<open>datetime.now().isoformat()\<close> and \<open>date.today().isoformat()\<close>.
\<close>

record env =
  uuid4 :: string
  now :: string
  today :: string

definition add_expense ::
  "env \<Rightarrow> pyfloat \<Rightarrow> string \<Rightarrow> string \<Rightarrow> string option \<Rightarrow> manager \<Rightarrow> expense \<times> manager" where
  "add_expense e amount_arg category_arg description_arg expense_date m =
     (let date_used = (case expense_date of None \<Rightarrow> today e | Some d \<Rightarrow> d);
          expense =
            \<lparr>expense_id = take 8 (uuid4 e),
             amount = amount_arg,
             category = strip category_arg,
             description = strip description_arg,
             date = date_used,
             created_at = now e\<rparr>
      in (expense, m\<lparr>expenses := expenses m @ [expense]\<rparr>))"

text \<open>
  \<open>sorted(xs, key=..., reverse=True)\<close> reverses the list, sorts it stably in ascending
  order and reverses the result; \<open>sort_key\<close> is a stable ascending sort. Strings are
  compared lexicographically by character code.
\<close>

definition get_all_expenses :: "manager \<Rightarrow> expense list \<times> manager" where
  "get_all_expenses m = (rev (sort_key created_at (rev (expenses m))), m)"

definition get_expenses_by_category :: "string \<Rightarrow> manager \<Rightarrow> expense list \<times> manager" where
  "get_expenses_by_category category_arg m =
     (filter (\<lambda>exp. lower (category exp) = lower category_arg) (expenses m), m)"

definition get_expenses_by_date_range ::
  "string \<Rightarrow> string \<Rightarrow> manager \<Rightarrow> expense list \<times> manager" where
  "get_expenses_by_date_range start_date end_date m =
     (filter (\<lambda>exp. start_date \<le> date exp \<and> date exp \<le> end_date) (expenses m), m)"

definition delete_expense :: "string \<Rightarrow> manager \<Rightarrow> bool \<times> manager" where
  "delete_expense eid m =
     (let original_length = length (expenses m);
          m' = m\<lparr>expenses := filter (\<lambda>exp. expense_id exp \<noteq> eid) (expenses m)\<rparr>
      in (length (expenses m') < original_length, m'))"

text \<open>
  \<open>sum(...)\<close> adds the items to \<open>0\<close> from left to right, rounding each addition.
  (From version 3.12 on, CPython's \<open>sum\<close> also carries a correction term for the
  rounding errors of floats; that refinement is not modelled.)
\<close>

definition py_sum :: "pyfloat list \<Rightarrow> pyfloat" where
  "py_sum xs = foldl (\<lambda>acc x. float_add acc x) (Finite 0) xs"

record summary =
  summary_total :: pyfloat
  summary_count :: nat
  summary_average :: pyfloat
  summary_categories :: "string \<rightharpoonup> pyfloat"

text \<open>One round of the loop \<open>categories[cat] = categories.get(cat, 0) + exp['amount']\<close>.\<close>

definition add_to_category :: "expense \<Rightarrow> (string \<rightharpoonup> pyfloat) \<Rightarrow> (string \<rightharpoonup> pyfloat)" where
  "add_to_category expense categories =
     (let cat = category expense
      in categories(cat \<mapsto>
           float_add (case categories cat of None \<Rightarrow> Finite 0 | Some v \<Rightarrow> v) (amount expense)))"

definition get_summary :: "manager \<Rightarrow> summary \<times> manager" where
  "get_summary m =
     (if expenses m = [] then
        (\<lparr>summary_total = Finite 0, summary_count = 0, summary_average = Finite 0,
          summary_categories = Map.empty\<rparr>, m)
      else
        (let total = py_sum (map amount (expenses m));
             count = length (expenses m);
             categories = fold add_to_category (expenses m) Map.empty
         in (\<lparr>summary_total = total,
              summary_count = count,
              summary_average = (if count > 0 then float_div_count total count else Finite 0),
              summary_categories = categories\<rparr>, m)))"

definition get_categories :: "manager \<Rightarrow> string list \<times> manager" where
  "get_categories m = (sorted_list_of_set (set (map category (expenses m))), m)"

text \<open>\<open>validate_expense\<close> does not read the manager.\<close>

definition validate_expense :: "string \<Rightarrow> string \<Rightarrow> string \<Rightarrow> string list" where
  "validate_expense amount_text category_arg description_arg =
     (case py_float amount_text of
        None \<Rightarrow> [''Amount must be a valid number'']
      | Some amount_float \<Rightarrow>
          if float_le_zero amount_float then [''Amount must be positive''] else [])
     @ (if strip category_arg = [] then [''Category is required''] else [])
     @ (if strip description_arg = [] then [''Description is required''] else [])"

section \<open>Files\<close>

datatype exn =
  JSONDecodeError | FileNotFoundError | PermissionError | IsADirectoryError
  | UnicodeDecodeError | Csv_Error | ValueError | OSError

text \<open>
  \<open>load_expenses\<close> asks whether the data file exists and, if so, opens it and calls
  \<open>json.load\<close>. The two answers are the fields of \<open>data_file_state\<close>: \<open>json_load\<close>
  is the exception raised by \<open>open\<close> or \<open>json.load\<close>, or the list read (the file's
  records are taken to have the six typed fields). The handler catches
  \<open>JSONDecodeError\<close> and \<open>FileNotFoundError\<close>; any other exception leaves the method.
\<close>

record data_file_state =
  file_exists :: bool
  json_load :: "exn + expense list"

definition load_expenses :: "data_file_state \<Rightarrow> manager \<Rightarrow> exn + manager" where
  "load_expenses st m =
     (if file_exists st then
        (case json_load st of
           Inr loaded \<Rightarrow> Inr (m\<lparr>expenses := loaded\<rparr>)
         | Inl e \<Rightarrow>
             if e = JSONDecodeError \<or> e = FileNotFoundError then Inr (m\<lparr>expenses := []\<rparr>)
             else Inl e)
      else Inr (m\<lparr>expenses := []\<rparr>))"

text \<open>
  Files that the program writes. The content of a file is the list of items written to it
  since it was opened with mode \<open>'w'\<close>, which creates the file or empties it.
  \<open>open_error path\<close> is the exception that opening \<open>path\<close> for writing raises, if any.
\<close>

datatype item = Csv_header "string list" | Csv_row expense | Json_dump "expense list"

record disk =
  files :: "string \<rightharpoonup> item list"
  open_error :: "string \<Rightarrow> exn option"

text \<open>What the program prints; menu headers and prompts are left out.\<close>

datatype message =
    Error_saving_expenses exn
  | Validation_errors "string list"
  | Expense_added expense
  | Failed_to_save_expense
  | Error exn
  | No_expenses_to_save
  | Expenses_saved_to string
  | Save_failed exn
  | Invalid_CSV_format
  | Skipping_invalid_amount string
  | No_valid_expenses_found
  | Added_successfully nat
  | Failed_to_save_imported
  | File_not_found string
  | CSV_file_error exn
  | Import_failed exn

definition save_expenses :: "manager \<Rightarrow> disk \<Rightarrow> bool \<times> message list \<times> disk" where
  "save_expenses m fs =
     (case open_error fs (data_file m) of
        Some e \<Rightarrow> (False, [Error_saving_expenses e], fs)
      | None \<Rightarrow> (True, [], fs\<lparr>files := (files fs)(data_file m \<mapsto> [Json_dump (expenses m)])\<rparr>))"

section \<open>The command-line layer\<close>

definition add_expense_manually ::
  "env \<Rightarrow> string \<Rightarrow> string \<Rightarrow> string \<Rightarrow> string \<Rightarrow> manager \<Rightarrow> disk
     \<Rightarrow> message list \<times> manager \<times> disk" where
  "add_expense_manually e amount_in category_in description_in date_in m fs =
     (let amount_text = strip amount_in;
          category_text = strip category_in;
          description_text = strip description_in;
          date_input = (if strip date_in = [] then today e else strip date_in);
          errors = validate_expense amount_text category_text description_text
      in if errors \<noteq> [] then ([Validation_errors errors], m, fs)
         else
           (case py_float amount_text of
              None \<Rightarrow> ([Error ValueError], m, fs)
            | Some a \<Rightarrow>
                (let (expense, m') =
                       add_expense e a category_text description_text (Some date_input) m;
                     (saved, printed, fs') = save_expenses m' fs
                 in (printed @ (if saved then [Expense_added expense]
                                else [Failed_to_save_expense]), m', fs'))))"

definition export_fieldnames :: "string list" where
  "export_fieldnames = [''id'', ''amount'', ''category'', ''description'', ''date'', ''created_at'']"

text \<open>
  \<open>export_expenses\<close> opens the target file for writing before it looks at the list of
  expenses.
\<close>

definition export_expenses ::
  "string \<Rightarrow> string option \<Rightarrow> manager \<Rightarrow> disk \<Rightarrow> message list \<times> disk" where
  "export_expenses today_iso filename_arg m fs =
     (let filename =
            (case filename_arg of
               None \<Rightarrow> ''expenses_export_'' @ today_iso @ ''.csv''
             | Some f \<Rightarrow> if f = [] then ''expenses_export_'' @ today_iso @ ''.csv'' else f)
      in case open_error fs filename of
           Some e \<Rightarrow> ([Save_failed e], fs)
         | None \<Rightarrow>
             (let opened = fs\<lparr>files := (files fs)(filename \<mapsto> [])\<rparr>
              in if expenses m = [] then ([No_expenses_to_save], opened)
                 else ([Expenses_saved_to filename],
                       opened\<lparr>files := (files opened)
                          (filename \<mapsto> Csv_header export_fieldnames # map Csv_row (expenses m))\<rparr>)))"

text \<open>
  A table read by \<open>csv.DictReader\<close>: the names of the header row and the data rows. A
  row gives the text of its cell in each column of the header, so \<open>key in row\<close> is
  \<open>key \<in> set (fieldnames t)\<close> and \<open>row[key]\<close> is \<open>row key\<close>. Rows that are shorter
  than the header, whose missing cells the reader fills with \<open>None\<close>, are not tables of
  this type.
\<close>

record csv_table =
  fieldnames :: "string list"
  rows :: "(string \<Rightarrow> string) list"

definition required_columns :: "string list" where
  "required_columns = [''id'', ''amount'', ''category'', ''description'', ''date'']"

text \<open>
  The record built from a row whose amount has been parsed. \<open>now_text\<close> is the time
  read at this row; it is used when the table has no \<open>created_at\<close> column.
\<close>

definition row_expense :: "string list \<Rightarrow> string \<Rightarrow> (string \<Rightarrow> string) \<Rightarrow> pyfloat \<Rightarrow> expense" where
  "row_expense cols now_text row amount_float =
     \<lparr>expense_id = row ''id'',
      amount = amount_float,
      category = strip (row ''category''),
      description = strip (row ''description''),
      date = row ''date'',
      created_at = (if ''created_at'' \<in> set cols then row ''created_at'' else now_text)\<rparr>"

text \<open>
  The loop over the rows: \<open>printed\<close> and \<open>imported\<close> are what has been printed and
  collected so far, \<open>i\<close> counts the rows and \<open>now_at i\<close> is the time read at row
  \<open>i\<close>. The second component of the result is \<open>None\<close> when the loop left the method
  at a row without the required columns.
\<close>

fun import_rows ::
  "(nat \<Rightarrow> string) \<Rightarrow> string list \<Rightarrow> nat \<Rightarrow> (string \<Rightarrow> string) list
     \<Rightarrow> message list \<Rightarrow> expense list \<Rightarrow> message list \<times> expense list option" where
  "import_rows now_at cols i [] printed imported = (printed, Some imported)"
| "import_rows now_at cols i (row # rest) printed imported =
     (if \<not> list_all (\<lambda>key. key \<in> set cols) required_columns
      then (printed @ [Invalid_CSV_format], None)
      else
        (case py_float (row ''amount'') of
           None \<Rightarrow>
             import_rows now_at cols (Suc i) rest
               (printed @ [Skipping_invalid_amount (row ''amount'')]) imported
         | Some amount_float \<Rightarrow>
             if float_le_zero amount_float then
               import_rows now_at cols (Suc i) rest
                 (printed @ [Skipping_invalid_amount (row ''amount'')]) imported
             else
               import_rows now_at cols (Suc i) rest printed
                 (imported @ [row_expense cols (now_at i) row amount_float])))"

text \<open>
  \<open>source\<close> is what opening and reading the file gives: an exception or the table.
\<close>

definition import_expenses ::
  "(nat \<Rightarrow> string) \<Rightarrow> string \<Rightarrow> exn + csv_table \<Rightarrow> manager \<Rightarrow> disk
     \<Rightarrow> message list \<times> manager \<times> disk" where
  "import_expenses now_at filename source m fs =
     (case source of
        Inl e \<Rightarrow>
          ([if e = FileNotFoundError then File_not_found filename
            else if e = Csv_Error then CSV_file_error e
            else Import_failed e], m, fs)
      | Inr table \<Rightarrow>
          (case import_rows now_at (fieldnames table) 0 (rows table) [] [] of
             (printed, None) \<Rightarrow> (printed, m, fs)
           | (printed, Some imported_expenses) \<Rightarrow>
               if imported_expenses = [] then (printed @ [No_valid_expenses_found], m, fs)
               else
                 (let m' = m\<lparr>expenses := expenses m @ imported_expenses\<rparr>;
                      (saved, save_printed, fs') = save_expenses m' fs
                  in (printed @ save_printed
                      @ [if saved then Added_successfully (length imported_expenses)
                         else Failed_to_save_imported], m', fs'))))"

section \<open>Example data\<close>

definition lunch :: expense where
  "lunch = \<lparr>expense_id = ''a1b2c3d4'', amount = Finite 50, category = ''Food'',
     description = ''Lunch'', date = ''2024-01-15'', created_at = ''2024-01-15T12:00:00''\<rparr>"

definition taxi :: expense where
  "taxi = \<lparr>expense_id = ''e5f6a7b8'', amount = Finite 20, category = ''Travel'',
     description = ''Taxi'', date = ''2024-02-01'', created_at = ''2024-02-01T09:30:00''\<rparr>"

definition dinner :: expense where
  "dinner = \<lparr>expense_id = ''a1b2c3d4'', amount = Finite 30, category = ''food'',
     description = ''Dinner'', date = ''2024-01-20'', created_at = ''2024-01-15T12:00:00''\<rparr>"

definition coffee :: expense where
  "coffee = \<lparr>expense_id = ''0c9d8e7f'', amount = Finite (7 / 2), category = ''Food'',
     description = ''Coffee'', date = ''2024-02-02'', created_at = ''2024-02-02T08:00:00''\<rparr>"

definition example_manager :: manager where
  "example_manager = \<lparr>data_file = ''expenses.json'', expenses = [lunch, taxi, dinner, coffee]\<rparr>"

definition example_env :: env where
  "example_env = \<lparr>uuid4 = ''9f1c2b7e-5d3a-4c1e-8a2b-0123456789ab'',
     now = ''2024-03-01T10:15:00'', today = ''2024-03-01''\<rparr>"

definition empty_manager :: manager where
  "empty_manager = \<lparr>data_file = ''expenses.json'', expenses = []\<rparr>"

definition empty_disk :: disk where
  "empty_disk = \<lparr>files = Map.empty, open_error = (\<lambda>path. None)\<rparr>"

definition old_export_disk :: disk where
  "old_export_disk =
     \<lparr>files = [''out.csv'' \<mapsto> [Csv_header export_fieldnames, Csv_row lunch]],
      open_error = (\<lambda>path. None)\<rparr>"





text \<open>Rows and tables for the import: a row is given by its cells.\<close>

definition cells :: "(string \<times> string) list \<Rightarrow> string \<Rightarrow> string" where
  "cells kvs key = (case map_of kvs key of None \<Rightarrow> [] | Some v \<Rightarrow> v)"

definition example_clock :: "nat \<Rightarrow> string" where
  "example_clock i = ''2024-03-01T10:15:00''"

definition header_only_table :: csv_table where
  "header_only_table = \<lparr>fieldnames = [''id'', ''amount'', ''description'', ''date''], rows = []\<rparr>"

definition no_category_table :: csv_table where
  "no_category_table =
     \<lparr>fieldnames = [''id'', ''amount'', ''description'', ''date''],
      rows = [cells [(''id'', ''r1''), (''amount'', ''10''), (''description'', ''Bus''),
                     (''date'', ''2024-02-10'')]]\<rparr>"

definition mixed_table :: csv_table where
  "mixed_table =
     \<lparr>fieldnames = [''id'', ''amount'', ''category'', ''description'', ''date''],
      rows =
        [cells [(''id'', ''r1''), (''amount'', ''10''), (''category'', ''Travel''),
                (''description'', ''Bus''), (''date'', ''2024-02-10'')],
         cells [(''id'', ''r2''), (''amount'', ''-5''), (''category'', ''Food''),
                (''description'', ''Refund''), (''date'', ''2024-02-11'')],
         cells [(''id'', ''r3''), (''amount'', ''abc''), (''category'', ''Food''),
                (''description'', ''Tea''), (''date'', ''2024-02-12'')],
         cells [(''id'', ''r4''), (''amount'', ''2.5''), (''category'', '' Food ''),
                (''description'', ''Bread''), (''date'', ''2024-02-13'')]]\<rparr>"

section \<open>Notions used in the statements\<close>

text \<open>
  The property that the data model asks of every stored record: a positive amount, a
  category and a description that are not empty, and a date of the shape
  \<open>YYYY-MM-DD\<close>.
\<close>

definition iso_date :: "string \<Rightarrow> bool" where
  "iso_date s =
     (length s = 10 \<and> s ! 4 = CHR ''-'' \<and> s ! 7 = CHR ''-''
      \<and> list_all is_digit (take 4 s @ take 2 (drop 5 s) @ drop 8 s))"

definition record_valid :: "expense \<Rightarrow> bool" where
  "record_valid e =
     (float_gt_zero (amount e) \<and> category e \<noteq> [] \<and> description e \<noteq> [] \<and> iso_date (date e))"

definition store_valid :: "manager \<Rightarrow> bool" where
  "store_valid m = list_all record_valid (expenses m)"

text \<open>The part of it that \<open>validate_expense\<close> looks at.\<close>

definition record_checked :: "expense \<Rightarrow> bool" where
  "record_checked e = (float_gt_zero (amount e) \<and> category e \<noteq> [] \<and> description e \<noteq> [])"

definition store_checked :: "manager \<Rightarrow> bool" where
  "store_checked m = list_all record_checked (expenses m)"




text \<open>
  For the import: a row is accepted when its amount parses to a float greater than 0;
  the other rows are skipped. \<open>accepted_records\<close> are the records of the accepted
  rows, in the order of the rows, \<open>i\<close> being the number of the first row.
\<close>

definition row_amount_ok :: "(string \<Rightarrow> string) \<Rightarrow> bool" where
  "row_amount_ok row =
     (case py_float (row ''amount'') of None \<Rightarrow> False | Some a \<Rightarrow> float_gt_zero a)"

definition skipped_rows :: "(string \<Rightarrow> string) list \<Rightarrow> (string \<Rightarrow> string) list" where
  "skipped_rows rs = filter (\<lambda>row. \<not> row_amount_ok row) rs"

definition accepted_records ::
  "(nat \<Rightarrow> string) \<Rightarrow> string list \<Rightarrow> nat \<Rightarrow> (string \<Rightarrow> string) list \<Rightarrow> expense list" where
  "accepted_records now_at cols i rs =
     map (\<lambda>(j, row). row_expense cols (now_at j) row (the (py_float (row ''amount''))))
       (filter (\<lambda>(j, row). row_amount_ok row) (enumerate i rs))"

section \<open>Deleting\<close>

text \<open>
  C4. \<open>delete_expense eid\<close> keeps exactly the records whose id differs from \<open>eid\<close>,
  in their order, so it removes all \<open>k\<close> records with that id. It returns true iff the
  list became shorter, which is the case iff \<open>k \<ge> 1\<close>. When no record has the id, it
  returns false and leaves the manager as it was.
\<close>

theorem delete_expense_removes_matches:
  "expenses (snd (delete_expense eid m)) = filter (\<lambda>e. expense_id e \<noteq> eid) (expenses m)
   \<and> data_file (snd (delete_expense eid m)) = data_file m
   \<and> length (expenses (snd (delete_expense eid m)))
       + length (filter (\<lambda>e. expense_id e = eid) (expenses m)) = length (expenses m)
   \<and> fst (delete_expense eid m)
       = (length (expenses (snd (delete_expense eid m))) < length (expenses m))
   \<and> fst (delete_expense eid m) = (1 \<le> length (filter (\<lambda>e. expense_id e = eid) (expenses m)))
   \<and> (filter (\<lambda>e. expense_id e = eid) (expenses m) = [] \<longrightarrow> delete_expense eid m = (False, m))"
proof -
  let ?xs = "expenses m"
  let ?gone = "filter (\<lambda>e. expense_id e = eid) ?xs"
  let ?kept = "filter (\<lambda>e. expense_id e \<noteq> eid) ?xs"
  have parts: "length ?kept + length ?gone = length ?xs"
    using sum_length_filter_compl [of "\<lambda>e. expense_id e = eid" ?xs] by simp
  have kept: "expenses (snd (delete_expense eid m)) = ?kept"
    by (simp add: delete_expense_def Let_def)
  have path: "data_file (snd (delete_expense eid m)) = data_file m"
    by (simp add: delete_expense_def Let_def)
  have flag: "fst (delete_expense eid m) = (length ?kept < length ?xs)"
    by (simp add: delete_expense_def Let_def)
  have flag': "fst (delete_expense eid m) = (1 \<le> length ?gone)"
    using parts flag by auto
  have same: "delete_expense eid m = (False, m)" if none: "?gone = []"
  proof -
    have "?kept = ?xs"
      using none by (simp add: filter_empty_conv)
    then show ?thesis
      by (simp add: delete_expense_def Let_def)
  qed
  show ?thesis
    using parts kept path flag flag' same by simp
qed

theorem delete_expense_removes_matches_witness:
  "filter (\<lambda>e. expense_id e = ''ffffffff'') (expenses example_manager) = []
   \<and> delete_expense ''ffffffff'' example_manager = (False, example_manager)
   \<and> delete_expense ''a1b2c3d4'' example_manager
       = (True, \<lparr>data_file = ''expenses.json'', expenses = [taxi, coffee]\<rparr>)"
proof -
  have none: "filter (\<lambda>e. expense_id e = ''ffffffff'') (expenses example_manager) = []"
    by (simp add: example_manager_def lunch_def taxi_def dinner_def coffee_def)
  have two: "delete_expense ''a1b2c3d4'' example_manager
       = (True, \<lparr>data_file = ''expenses.json'', expenses = [taxi, coffee]\<rparr>)"
    by (simp add: delete_expense_def Let_def example_manager_def lunch_def taxi_def dinner_def coffee_def)
  show ?thesis
    using none two delete_expense_removes_matches [of "''ffffffff''" example_manager] by simp
qed

section \<open>Listing\<close>



section \<open>Queries\<close>

text \<open>
  C9. The queries \<open>get_all_expenses\<close>, \<open>get_expenses_by_category\<close>,
  \<open>get_expenses_by_date_range\<close>, \<open>get_summary\<close> and \<open>get_categories\<close> leave
  the manager, and so its list of expenses, as it was: \<open>get_all_expenses\<close> sorts a
  copy.
\<close>

theorem queries_leave_store_unchanged:
  "snd (get_all_expenses m) = m
   \<and> snd (get_expenses_by_category c m) = m
   \<and> snd (get_expenses_by_date_range start_date end_date m) = m
   \<and> snd (get_summary m) = m
   \<and> snd (get_categories m) = m"
  by (simp add: get_all_expenses_def get_expenses_by_category_def
      get_expenses_by_date_range_def get_summary_def get_categories_def Let_def)

theorem queries_leave_store_unchanged_witness:
  "fst (get_all_expenses example_manager) = [coffee, taxi, lunch, dinner]
   \<and> expenses (snd (get_all_expenses example_manager)) = [lunch, taxi, dinner, coffee]"
proof -
  have order: "fst (get_all_expenses example_manager) = [coffee, taxi, lunch, dinner]"
    by (simp add: get_all_expenses_def example_manager_def lunch_def taxi_def dinner_def
        coffee_def less_eq_char_def less_char_def list_le_def list_less_def)
  have store: "expenses example_manager = [lunch, taxi, dinner, coffee]"
    by (simp add: example_manager_def)
  show ?thesis
    using order store queries_leave_store_unchanged [of example_manager] by simp
qed



section \<open>Validation\<close>

lemma float_le_zero_iff: "\<not> float_le_zero x \<longleftrightarrow> float_gt_zero x \<or> x = NaN"
  by (cases x) auto

text \<open>
  \<open>validate_expense\<close> returns no message exactly when the amount text parses to a float
  that is not \<open><= 0\<close> and the category and the description are not blank.
\<close>

lemma validate_expense_empty_iff:
  "validate_expense amount_text c d = [] \<longleftrightarrow>
     (\<exists>x. py_float amount_text = Some x \<and> \<not> float_le_zero x) \<and> strip c \<noteq> [] \<and> strip d \<noteq> []"
  by (auto simp: validate_expense_def split: option.splits)

text \<open>
  C6. The claim is that \<open>validate_expense\<close> returns the empty list only for an amount
  text that parses to a number greater than 0. The text \<open>nan\<close> parses to NaN, for which
  \<open>amount_float <= 0\<close> is false, so no message is added although NaN is not greater
  than 0.
\<close>

theorem validate_expense_accepts_nan:
  "py_float ''nan'' = Some NaN
   \<and> \<not> float_gt_zero NaN
   \<and> validate_expense ''nan'' ''Food'' ''Lunch'' = []"
  by code_simp

section \<open>The invariant of the store\<close>

text \<open>
  C2, as stated: after any sequence of operations every record of the store has a positive
  amount, a category and a description that are not empty, and a well-formed date. It
  fails: \<open>add_expense\<close> stores what it is given, and the validated path of the
  command-line layer does not look at the date.
\<close>

theorem add_expense_unchecked_counterexample:
  "expenses (snd (add_expense example_env (Finite (- 5)) [] [] (Some ''yesterday'') empty_manager))
     = [\<lparr>expense_id = ''9f1c2b7e'', amount = Finite (- 5), category = [], description = [],
         date = ''yesterday'', created_at = ''2024-03-01T10:15:00''\<rparr>]
   \<and> \<not> store_valid
         (snd (add_expense example_env (Finite (- 5)) [] [] (Some ''yesterday'') empty_manager))
   \<and> \<not> store_valid
         (fst (snd (add_expense_manually example_env ''12.5'' ''Food'' ''Snack'' ''yesterday''
                      empty_manager empty_disk)))"
  by code_simp

lemma store_checked_delete:
  "store_checked m \<Longrightarrow> store_checked (snd (delete_expense eid m))"
  by (simp add: store_checked_def delete_expense_def Let_def list_all_iff)

lemma store_checked_add_expense:
  assumes "store_checked m" and "float_gt_zero a" and "strip c \<noteq> []" and "strip d \<noteq> []"
  shows "store_checked (snd (add_expense e a c d dt m))"
  using assms
  by (simp add: store_checked_def add_expense_def Let_def record_checked_def)

text \<open>
  C2, amended. If every record of the store has a positive amount and a category and a
  description that are not empty, this is still so after \<open>delete_expense\<close>, and after
  \<open>add_expense_manually\<close> (validate, then add) provided the amount text does not parse
  to NaN. Nothing is said of the date, of \<open>add_expense\<close> called on its own, of loading
  and of importing.
\<close>

theorem checked_add_and_delete_keep_store_checked:
  assumes "store_checked m"
    and "py_float (strip amount_in) \<noteq> Some NaN"
  shows "store_checked (snd (delete_expense eid m))
    \<and> store_checked
          (fst (snd (add_expense_manually e amount_in category_in description_in date_in m fs)))"
proof -
  let ?a = "strip amount_in"
  let ?c = "strip category_in"
  let ?d = "strip description_in"
  let ?dt = "if strip date_in = [] then today e else strip date_in"
  let ?after = "fst (snd (add_expense_manually e amount_in category_in description_in date_in m fs))"
  have added: "store_checked ?after"
  proof (cases "validate_expense ?a ?c ?d = []")
    case False
    then have "?after = m"
      by (simp add: add_expense_manually_def Let_def)
    then show ?thesis
      using assms(1) by simp
  next
    case True
    then obtain x where x: "py_float ?a = Some x" "\<not> float_le_zero x"
      and c: "strip ?c \<noteq> []" and d: "strip ?d \<noteq> []"
      by (auto simp: validate_expense_empty_iff)
    have "x \<noteq> NaN"
      using x(1) assms(2) by auto
    then have pos: "float_gt_zero x"
      using x(2) by (simp add: float_le_zero_iff)
    have "?after = snd (add_expense e x ?c ?d (Some ?dt) m)"
      using True x(1)
      by (simp add: add_expense_manually_def Let_def split: prod.splits)
    then show ?thesis
      using store_checked_add_expense [OF assms(1) pos c d] by simp
  qed
  show ?thesis
    using added store_checked_delete [OF assms(1)] by simp
qed

theorem checked_add_and_delete_keep_store_checked_witness:
  "store_checked example_manager
   \<and> py_float (strip '' 12.5 '') \<noteq> Some NaN
   \<and> store_checked (snd (delete_expense ''e5f6a7b8'' example_manager))
   \<and> store_checked
         (fst (snd (add_expense_manually example_env '' 12.5 '' '' Food '' ''Snack'' []
                      example_manager empty_disk)))
   \<and> length (expenses
         (fst (snd (add_expense_manually example_env '' 12.5 '' '' Food '' ''Snack'' []
                      example_manager empty_disk)))) = 5"
proof -
  have checked: "store_checked example_manager"
    by code_simp
  have parsed: "py_float (strip '' 12.5 '') \<noteq> Some NaN"
    by code_simp
  have grown: "length (expenses
         (fst (snd (add_expense_manually example_env '' 12.5 '' '' Food '' ''Snack'' []
                      example_manager empty_disk)))) = 5"
    by code_simp
  show ?thesis
    using checked parsed grown
      checked_add_and_delete_keep_store_checked [OF checked parsed,
        of "''e5f6a7b8''" example_env "'' Food ''" "''Snack''" "[]" empty_disk]
    by simp
qed

section \<open>Exporting\<close>

text \<open>
  C1. The claim is that exporting an empty store writes nothing and creates no empty
  file. \<open>export_expenses\<close> opens the target for writing first: on the empty store it
  prints \<open>No expenses to save\<close> and leaves an empty file, both where there was no
  file and where there was an earlier export.
\<close>

theorem export_expenses_empty_store_writes_file:
  "files empty_disk ''out.csv'' = None
   \<and> fst (export_expenses ''2024-03-01'' (Some ''out.csv'') empty_manager empty_disk)
       = [No_expenses_to_save]
   \<and> files (snd (export_expenses ''2024-03-01'' (Some ''out.csv'') empty_manager empty_disk))
       ''out.csv'' = Some []
   \<and> files old_export_disk ''out.csv'' = Some [Csv_header export_fieldnames, Csv_row lunch]
   \<and> files (snd (export_expenses ''2024-03-01'' (Some ''out.csv'') empty_manager old_export_disk))
       ''out.csv'' = Some []"
  by (simp add: export_expenses_def empty_manager_def empty_disk_def old_export_disk_def)

section \<open>Loading\<close>

text \<open>
  C3, as stated: \<open>load_expenses\<close> never raises, whatever the state of the file. It
  fails for a file whose bytes cannot be decoded: \<open>json.load\<close> raises
  \<open>UnicodeDecodeError\<close>, which the handler does not catch.
\<close>

theorem load_expenses_raises_counterexample:
  "load_expenses \<lparr>file_exists = True, json_load = Inl UnicodeDecodeError\<rparr> empty_manager
     = Inl UnicodeDecodeError"
  by (simp add: load_expenses_def)

text \<open>
  C3, amended. \<open>load_expenses\<close> gives the empty store when the file does not exist and
  when reading it raises \<open>JSONDecodeError\<close> or \<open>FileNotFoundError\<close>; it gives the
  records read when reading succeeds; any other exception raised by opening or reading
  the file reaches the caller.
\<close>

theorem load_expenses_outcomes:
  "(\<not> file_exists st \<longrightarrow> load_expenses st m = Inr (m\<lparr>expenses := []\<rparr>))
   \<and> (file_exists st \<and> (json_load st = Inl JSONDecodeError \<or> json_load st = Inl FileNotFoundError)
        \<longrightarrow> load_expenses st m = Inr (m\<lparr>expenses := []\<rparr>))
   \<and> (\<forall>loaded. file_exists st \<and> json_load st = Inr loaded
        \<longrightarrow> load_expenses st m = Inr (m\<lparr>expenses := loaded\<rparr>))
   \<and> (\<forall>e. file_exists st \<and> json_load st = Inl e \<and> e \<noteq> JSONDecodeError \<and> e \<noteq> FileNotFoundError
        \<longrightarrow> load_expenses st m = Inl e)"
  by (auto simp: load_expenses_def)

theorem load_expenses_outcomes_witness:
  "load_expenses \<lparr>file_exists = False, json_load = Inl FileNotFoundError\<rparr> example_manager
     = Inr (example_manager\<lparr>expenses := []\<rparr>)
   \<and> load_expenses \<lparr>file_exists = True, json_load = Inl JSONDecodeError\<rparr> example_manager
     = Inr (example_manager\<lparr>expenses := []\<rparr>)
   \<and> load_expenses \<lparr>file_exists = True, json_load = Inr [lunch, taxi]\<rparr> empty_manager
     = Inr (empty_manager\<lparr>expenses := [lunch, taxi]\<rparr>)
   \<and> load_expenses \<lparr>file_exists = True, json_load = Inl PermissionError\<rparr> example_manager
     = Inl PermissionError"
proof -
  have missing: "load_expenses \<lparr>file_exists = False, json_load = Inl FileNotFoundError\<rparr> example_manager
     = Inr (example_manager\<lparr>expenses := []\<rparr>)"
    using load_expenses_outcomes
      [of "\<lparr>file_exists = False, json_load = Inl FileNotFoundError\<rparr>" example_manager]
    by simp
  have malformed: "load_expenses \<lparr>file_exists = True, json_load = Inl JSONDecodeError\<rparr> example_manager
     = Inr (example_manager\<lparr>expenses := []\<rparr>)"
    using load_expenses_outcomes
      [of "\<lparr>file_exists = True, json_load = Inl JSONDecodeError\<rparr>" example_manager]
    by simp
  have read: "load_expenses \<lparr>file_exists = True, json_load = Inr [lunch, taxi]\<rparr> empty_manager
     = Inr (empty_manager\<lparr>expenses := [lunch, taxi]\<rparr>)"
    using load_expenses_outcomes
      [of "\<lparr>file_exists = True, json_load = Inr [lunch, taxi]\<rparr>" empty_manager]
    by simp
  have denied: "load_expenses \<lparr>file_exists = True, json_load = Inl PermissionError\<rparr> example_manager
     = Inl PermissionError"
    using load_expenses_outcomes
      [of "\<lparr>file_exists = True, json_load = Inl PermissionError\<rparr>" example_manager]
    by simp
  show ?thesis
    using missing malformed read denied by simp
qed

section \<open>Importing\<close>

text \<open>
  C8, as stated: a table without one of the five required columns makes the import fail
  with the format error. The columns are checked at each data row, so a table with no
  data row is never checked: the import reports that it found no valid expenses.
\<close>

theorem import_expenses_header_only_counterexample:
  "\<not> set required_columns \<subseteq> set (fieldnames header_only_table)
   \<and> import_expenses example_clock ''in.csv'' (Inr header_only_table) example_manager empty_disk
       = ([No_valid_expenses_found], example_manager, empty_disk)"
  by (simp add: import_expenses_def header_only_table_def required_columns_def)

lemma import_rows_no_columns:
  "\<not> set required_columns \<subseteq> set cols \<Longrightarrow>
     import_rows now_at cols i (row # rest) printed imported = (printed @ [Invalid_CSV_format], None)"
  by (auto simp: list_all_iff)

lemma import_rows_all:
  assumes "set required_columns \<subseteq> set cols"
    and "\<forall>row\<in>set rs. py_float (row ''amount'') \<noteq> Some NaN"
  shows "import_rows now_at cols i rs printed imported =
     (printed @ map (\<lambda>row. Skipping_invalid_amount (row ''amount'')) (skipped_rows rs),
      Some (imported @ accepted_records now_at cols i rs))"
  using assms(2)
proof (induction rs arbitrary: i printed imported)
  case Nil
  show ?case
    by (simp add: skipped_rows_def accepted_records_def enumerate_eq_zip)
next
  case (Cons row rest)
  have cols: "list_all (\<lambda>key. key \<in> set cols) required_columns"
    using assms(1) by (auto simp: list_all_iff)
  have rest: "\<forall>row\<in>set rest. py_float (row ''amount'') \<noteq> Some NaN"
    using Cons.prems by simp
  note IH = Cons.IH [OF rest]
  show ?case
  proof (cases "py_float (row ''amount'')")
    case None
    then have skip: "\<not> row_amount_ok row"
      by (simp add: row_amount_ok_def)
    show ?thesis
      using None skip cols
      by (simp add: IH skipped_rows_def accepted_records_def)
  next
    case (Some a)
    have "a \<noteq> NaN"
      using Some Cons.prems by auto
    then have pos: "float_gt_zero a \<longleftrightarrow> \<not> float_le_zero a"
      by (cases a) auto
    show ?thesis
    proof (cases "float_le_zero a")
      case True
      then have skip: "\<not> row_amount_ok row"
        using Some pos by (simp add: row_amount_ok_def)
      show ?thesis
        using Some True skip cols
        by (simp add: IH skipped_rows_def accepted_records_def)
    next
      case False
      then have ok: "row_amount_ok row"
        using Some pos by (simp add: row_amount_ok_def)
      show ?thesis
        using Some False ok cols
        by (simp add: IH skipped_rows_def accepted_records_def)
    qed
  qed
qed

text \<open>
  C8, amended. If a required column is missing and the table has at least one data row,
  the import prints the format error and changes neither the store nor the disk; a table
  with no data row is reported as having no valid expenses, whatever its header. If the
  five columns are there and no amount parses to NaN, the rows whose amount does not
  parse or is not positive are skipped, each with its message, and the records of all
  other rows are appended to the store in the order of the rows.
\<close>

theorem import_expenses_outcomes:
  "(\<not> set required_columns \<subseteq> set (fieldnames t) \<and> rows t \<noteq> []
      \<longrightarrow> import_expenses now_at filename (Inr t) m fs = ([Invalid_CSV_format], m, fs))
   \<and> (set required_columns \<subseteq> set (fieldnames t)
        \<and> (\<forall>row\<in>set (rows t). py_float (row ''amount'') \<noteq> Some NaN)
      \<longrightarrow> fst (snd (import_expenses now_at filename (Inr t) m fs))
            = m\<lparr>expenses := expenses m @ accepted_records now_at (fieldnames t) 0 (rows t)\<rparr>
          \<and> take (length (skipped_rows (rows t)))
               (fst (import_expenses now_at filename (Inr t) m fs))
            = map (\<lambda>row. Skipping_invalid_amount (row ''amount'')) (skipped_rows (rows t)))
   \<and> (rows t = []
      \<longrightarrow> import_expenses now_at filename (Inr t) m fs = ([No_valid_expenses_found], m, fs))"
proof -
  let ?cols = "fieldnames t"
  let ?skips = "map (\<lambda>row. Skipping_invalid_amount (row ''amount'')) (skipped_rows (rows t))"
  let ?new = "accepted_records now_at ?cols 0 (rows t)"
  have format: "import_expenses now_at filename (Inr t) m fs = ([Invalid_CSV_format], m, fs)"
    if lacking: "\<not> set required_columns \<subseteq> set ?cols" and some: "rows t \<noteq> []"
  proof -
    obtain row rest where "rows t = row # rest"
      using some by (cases "rows t") auto
    then have "import_rows now_at ?cols 0 (rows t) [] [] = ([Invalid_CSV_format], None)"
      using import_rows_no_columns [OF lacking] by simp
    then show ?thesis
      by (simp add: import_expenses_def)
  qed
  have appended:
    "fst (snd (import_expenses now_at filename (Inr t) m fs)) = m\<lparr>expenses := expenses m @ ?new\<rparr>
     \<and> take (length (skipped_rows (rows t))) (fst (import_expenses now_at filename (Inr t) m fs))
         = ?skips"
    if complete: "set required_columns \<subseteq> set ?cols"
      and numbers: "\<forall>row\<in>set (rows t). py_float (row ''amount'') \<noteq> Some NaN"
  proof -
    have loop: "import_rows now_at ?cols 0 (rows t) [] [] = (?skips, Some ?new)"
      using import_rows_all [OF complete numbers, of now_at 0 "[]" "[]"] by simp
    show ?thesis
    proof (cases "?new = []")
      case True
      then have "import_expenses now_at filename (Inr t) m fs
                 = (?skips @ [No_valid_expenses_found], m, fs)"
        by (simp add: import_expenses_def loop)
      then show ?thesis
        using True by simp
    next
      case False
      obtain saved save_printed fs' where
        save: "save_expenses (m\<lparr>expenses := expenses m @ ?new\<rparr>) fs = (saved, save_printed, fs')"
        by (cases "save_expenses (m\<lparr>expenses := expenses m @ ?new\<rparr>) fs") auto
      have "import_expenses now_at filename (Inr t) m fs
              = (?skips @ save_printed
                 @ [if saved then Added_successfully (length ?new) else Failed_to_save_imported],
                 m\<lparr>expenses := expenses m @ ?new\<rparr>, fs')"
        using False by (simp add: import_expenses_def loop Let_def save)
      then show ?thesis
        by simp
    qed
  qed
  have no_rows: "import_expenses now_at filename (Inr t) m fs = ([No_valid_expenses_found], m, fs)"
    if "rows t = []"
    using that by (simp add: import_expenses_def)
  show ?thesis
    using format appended no_rows by blast
qed

theorem import_expenses_outcomes_witness:
  "\<not> set required_columns \<subseteq> set (fieldnames no_category_table)
   \<and> rows no_category_table \<noteq> []
   \<and> import_expenses example_clock ''in.csv'' (Inr no_category_table) example_manager empty_disk
       = ([Invalid_CSV_format], example_manager, empty_disk)
   \<and> set required_columns \<subseteq> set (fieldnames mixed_table)
   \<and> map (\<lambda>row. py_float (row ''amount'')) (rows mixed_table)
       = [Some (Finite 10), Some (Finite (- 5)), None, Some (Finite (5 / 2))]
   \<and> expenses (fst (snd (import_expenses example_clock ''in.csv'' (Inr mixed_table)
                          example_manager empty_disk)))
       = [lunch, taxi, dinner, coffee,
          \<lparr>expense_id = ''r1'', amount = Finite 10, category = ''Travel'', description = ''Bus'',
            date = ''2024-02-10'', created_at = ''2024-03-01T10:15:00''\<rparr>,
          \<lparr>expense_id = ''r4'', amount = Finite (5 / 2), category = ''Food'',
            description = ''Bread'', date = ''2024-02-13'', created_at = ''2024-03-01T10:15:00''\<rparr>]
   \<and> take 2 (fst (import_expenses example_clock ''in.csv'' (Inr mixed_table)
                     example_manager empty_disk))
       = [Skipping_invalid_amount ''-5'', Skipping_invalid_amount ''abc'']
   \<and> rows header_only_table = []
   \<and> import_expenses example_clock ''in.csv'' (Inr header_only_table) example_manager empty_disk
       = ([No_valid_expenses_found], example_manager, empty_disk)"
proof -
  have lacking: "\<not> set required_columns \<subseteq> set (fieldnames no_category_table)"
    by (simp add: required_columns_def no_category_table_def)
  have one_row: "rows no_category_table \<noteq> []"
    by (simp add: no_category_table_def)
  have complete: "set required_columns \<subseteq> set (fieldnames mixed_table)"
    by (simp add: required_columns_def mixed_table_def)
  have amounts: "map (\<lambda>row. py_float (row ''amount'')) (rows mixed_table)
       = [Some (Finite 10), Some (Finite (- 5)), None, Some (Finite (5 / 2))]"
    by code_simp
  have numbers: "\<forall>row\<in>set (rows mixed_table). py_float (row ''amount'') \<noteq> Some NaN"
    by code_simp
  have skipped: "map (\<lambda>row. Skipping_invalid_amount (row ''amount'')) (skipped_rows (rows mixed_table))
                 = [Skipping_invalid_amount ''-5'', Skipping_invalid_amount ''abc'']"
    by code_simp
  have accepted: "expenses example_manager
                    @ accepted_records example_clock (fieldnames mixed_table) 0 (rows mixed_table)
       = [lunch, taxi, dinner, coffee,
          \<lparr>expense_id = ''r1'', amount = Finite 10, category = ''Travel'', description = ''Bus'',
            date = ''2024-02-10'', created_at = ''2024-03-01T10:15:00''\<rparr>,
          \<lparr>expense_id = ''r4'', amount = Finite (5 / 2), category = ''Food'',
            description = ''Bread'', date = ''2024-02-13'', created_at = ''2024-03-01T10:15:00''\<rparr>]"
    by code_simp
  have two: "length (skipped_rows (rows mixed_table)) = 2"
    using arg_cong [OF skipped, of length] by simp
  have bad: "import_expenses example_clock ''in.csv'' (Inr no_category_table) example_manager empty_disk
       = ([Invalid_CSV_format], example_manager, empty_disk)"
    using import_expenses_outcomes [of no_category_table example_clock "''in.csv''"
        example_manager empty_disk] lacking one_row
    by blast
  have good:
    "fst (snd (import_expenses example_clock ''in.csv'' (Inr mixed_table) example_manager empty_disk))
       = example_manager\<lparr>expenses := expenses example_manager
           @ accepted_records example_clock (fieldnames mixed_table) 0 (rows mixed_table)\<rparr>
     \<and> take (length (skipped_rows (rows mixed_table)))
          (fst (import_expenses example_clock ''in.csv'' (Inr mixed_table) example_manager empty_disk))
       = map (\<lambda>row. Skipping_invalid_amount (row ''amount'')) (skipped_rows (rows mixed_table))"
    using import_expenses_outcomes [of mixed_table example_clock "''in.csv''"
        example_manager empty_disk] complete numbers
    by blast
  have no_row: "rows header_only_table = []"
    by (simp add: header_only_table_def)
  have empty: "import_expenses example_clock ''in.csv'' (Inr header_only_table) example_manager empty_disk
       = ([No_valid_expenses_found], example_manager, empty_disk)"
    using import_expenses_outcomes [of header_only_table example_clock "''in.csv''"
        example_manager empty_disk] no_row
    by blast
  show ?thesis
    using lacking one_row complete amounts bad good no_row empty
    by (simp add: accepted skipped two)
qed

section \<open>Summary\<close>

subsection \<open>Whole numbers are added exactly\<close>










subsection \<open>The category totals\<close>







end
